theory Spec2Isabelle
  imports Complex_Main
begin

section \<open>Pages and the lodash list helpers\<close>

text \<open>
  Modelled from the spec: \<open>IPageProps\<close> is imported from \<open>./components\<close>, whose
  source is not part of the repository files at hand. The spec describes a page as a
  unit of content with a stable identifier and a rendered height; the record keeps both,
  \<open>offsetHeight\<close> being the height the DOM reports for the page's element.
\<close>

record IPageProps =
  page_id :: nat
  offsetHeight :: real

text \<open>
  \<open>_.head\<close> and \<open>_.last\<close> give \<open>undefined\<close> on an empty array; \<open>_.take(xs, n)\<close> slices
  \<open>[0, max n 0)\<close> and \<open>_.takeRight(xs, n)\<close> slices \<open>[max (length - n) 0, length)\<close>.
  JavaScript numbers that count pages are modelled as \<open>int\<close>.
\<close>

definition lodash_head :: "'a list \<Rightarrow> 'a option" where
  "lodash_head xs = (case xs of [] \<Rightarrow> None | x # _ \<Rightarrow> Some x)"

definition lodash_last :: "'a list \<Rightarrow> 'a option" where
  "lodash_last xs = (case rev xs of [] \<Rightarrow> None | x # _ \<Rightarrow> Some x)"

definition lodash_take :: "'a list \<Rightarrow> int \<Rightarrow> 'a list" where
  "lodash_take xs n = take (nat (if n < 0 then 0 else n)) xs"

definition lodash_takeRight :: "'a list \<Rightarrow> int \<Rightarrow> 'a list" where
  "lodash_takeRight xs n =
     (let m = int (length xs) - n in drop (nat (if m < 0 then 0 else m)) xs)"

text \<open>
  Array indexing \<open>xs[n]\<close>: the element when \<open>n\<close> is an index of the array,
  \<open>undefined\<close> otherwise.
\<close>

definition index :: "'a list \<Rightarrow> int \<Rightarrow> 'a option" where
  "index xs n = (if 0 \<le> n \<and> n < int (length xs) then Some (xs ! nat n) else None)"

section \<open>The window merge of addPage\<close>

text \<open>
  The block that builds the new \<open>pages\<close> array is the same text in both files
  (VirtualList.tsx lines 156-169, the legacy file lines 193-206): going up, the new page
  followed by \<open>_.take\<close> of the old window; going down, \<open>_.takeRight\<close> of the old window
  followed by the new page.
\<close>

definition mergePages :: "bool \<Rightarrow> int \<Rightarrow> IPageProps \<Rightarrow> IPageProps list \<Rightarrow> IPageProps list" where
  "mergePages isUp maxBuffer page ps =
     (if isUp then
        (let remainingPages = lodash_take ps maxBuffer in page # remainingPages)
      else
        (let remainingPages = lodash_takeRight ps maxBuffer in remainingPages @ [page]))"

text \<open>A sequence of merges on a window, each a direction and the page the host gave.\<close>

fun mergeAll :: "int \<Rightarrow> (bool \<times> IPageProps) list \<Rightarrow> IPageProps list \<Rightarrow> IPageProps list" where
  "mergeAll maxBuffer [] ps = ps"
| "mergeAll maxBuffer ((isUp, page) # ops) ps =
     mergeAll maxBuffer ops (mergePages isUp maxBuffer page ps)"

section \<open>The main variant (src/VirtualList.tsx)\<close>

subsection \<open>Settings\<close>

record IVirtualListSettings =
  startBottomUp :: bool
  maxPageBuffer :: int
  isPagingEnabled :: bool
  debug :: bool

text \<open>
  \<open>Partial<IVirtualListSettings>\<close>: every key may be absent (\<open>None\<close>); a key that is
  present holds a value of the field's type.
\<close>

record PartialSettings =
  startBottomUp_opt :: "bool option"
  maxPageBuffer_opt :: "int option"
  isPagingEnabled_opt :: "bool option"
  debug_opt :: "bool option"

definition defaultSettings :: IVirtualListSettings where
  "defaultSettings =
     \<lparr>startBottomUp = False, maxPageBuffer = 15, isPagingEnabled = True, debug = False\<rparr>"

text \<open>
  The object spread \<open>{ ...defaultSettings, ...this.props.settings }\<close>: a key present in
  the second object replaces the first object's value; \<open>props.settings\<close> itself is
  optional, and spreading \<open>undefined\<close> adds nothing.
\<close>

definition override :: "'a \<Rightarrow> 'a option \<Rightarrow> 'a" where
  "override d v = (case v of None \<Rightarrow> d | Some x \<Rightarrow> x)"

definition spreadSettings :: "IVirtualListSettings \<Rightarrow> PartialSettings option \<Rightarrow> IVirtualListSettings" where
  "spreadSettings d given =
     (case given of
        None \<Rightarrow> d
      | Some p \<Rightarrow>
          \<lparr>startBottomUp = override (startBottomUp d) (startBottomUp_opt p),
           maxPageBuffer = override (maxPageBuffer d) (maxPageBuffer_opt p),
           isPagingEnabled = override (isPagingEnabled d) (isPagingEnabled_opt p),
           debug = override (debug d) (debug_opt p)\<rparr>)"

subsection \<open>Component state\<close>

record IVirtualListState =
  pages :: "IPageProps list"
  settings :: IVirtualListSettings
  previousBufferHeight :: real
  nextBufferHeight :: real
  isScrollingUp :: bool

text \<open>
  The component instance together with what it reads and writes outside React state:
  \<open>scrollTop\<close> is \<open>viewport.scrollTop\<close>, \<open>nextBufferOffsetHeight\<close> the rendered height of
  the trailing buffer element. \<open>fetches\<close> logs every call of \<open>props.getPageBefore\<close>
  (\<open>True\<close>) and \<open>props.getPageAfter\<close> (\<open>False\<close>) with its argument, in call order;
  \<open>pending\<close> lists the directions of the \<open>addPage\<close> invocations suspended at their
  \<open>await\<close>.
\<close>

record VirtualList =
  state :: IVirtualListState
  scrollTop :: real
  nextBufferOffsetHeight :: real
  fetches :: "(bool \<times> IPageProps option) list"
  pending :: "bool list"

text \<open>
  The constructor builds the React state; the viewport of a new component is taken to
  be unscrolled, and no host call has been made.
\<close>

definition constructor :: "PartialSettings option \<Rightarrow> VirtualList" where
  "constructor given =
     (let s = spreadSettings defaultSettings given in
      \<lparr>state = \<lparr>pages = [], settings = s, previousBufferHeight = 0,
                 nextBufferHeight = 0, isScrollingUp = startBottomUp s\<rparr>,
       scrollTop = 0, nextBufferOffsetHeight = 0, fetches = [], pending = []\<rparr>)"

text \<open>
  \<open>previousBuffer.nextElementSibling\<close>: the first rendered page, or the trailing buffer
  when no page is rendered. Only its \<open>offsetHeight\<close> is read.
\<close>

definition firstElementHeight :: "IPageProps list \<Rightarrow> real \<Rightarrow> real" where
  "firstElementHeight ps bufferHeight =
     (case ps of [] \<Rightarrow> bufferHeight | p # _ \<Rightarrow> offsetHeight p)"

text \<open>
  \<open>nextBuffer.previousElementSibling\<close>: the last rendered page, or the leading buffer
  when no page is rendered.
\<close>

definition lastElementHeight :: "IPageProps list \<Rightarrow> real \<Rightarrow> real" where
  "lastElementHeight ps bufferHeight =
     (case rev ps of [] \<Rightarrow> bufferHeight | p # _ \<Rightarrow> offsetHeight p)"

text \<open>
  \<open>adjustScrollTop\<close>; the animation-frame callback is run at once, so the model has no
  user input between the update and the adjustment.
\<close>

definition adjustScrollTop :: "bool \<Rightarrow> real \<Rightarrow> VirtualList \<Rightarrow> VirtualList" where
  "adjustScrollTop isUp previousScrollTop c =
     (if isUp then
        (let newScrollTop =
               previousScrollTop
               + firstElementHeight (pages (state c)) (nextBufferOffsetHeight c)
         in c\<lparr>scrollTop := newScrollTop\<rparr>)
      else c)"

definition getSnapshotBeforeUpdate :: "VirtualList \<Rightarrow> real" where
  "getSnapshotBeforeUpdate c = scrollTop c"

definition componentDidUpdate :: "IVirtualListState \<Rightarrow> real \<Rightarrow> VirtualList \<Rightarrow> VirtualList" where
  "componentDidUpdate prevState snapshot c =
     adjustScrollTop (isScrollingUp prevState) snapshot c"

text \<open>
  \<open>setState\<close> as React runs it for a class component: the snapshot is taken before the
  new state is committed, and \<open>componentDidUpdate\<close> receives the state as it was before
  the update.
\<close>

definition setState :: "(IVirtualListState \<Rightarrow> IVirtualListState) \<Rightarrow> VirtualList \<Rightarrow> VirtualList" where
  "setState f c =
     (let prevState = state c;
          snapshot = getSnapshotBeforeUpdate c
      in componentDidUpdate prevState snapshot (c\<lparr>state := f prevState\<rparr>))"

text \<open>
  \<open>componentDidMount\<close> runs the component's set-up step, which stores the viewport's height
  as both buffer heights.
\<close>

definition componentDidMount :: "real \<Rightarrow> VirtualList \<Rightarrow> VirtualList" where
  "componentDidMount viewportHeight c =
     setState (\<lambda>s. s\<lparr>previousBufferHeight := viewportHeight,
                      nextBufferHeight := viewportHeight\<rparr>) c"

text \<open>
  \<open>addPage\<close> is an async function. Up to its \<open>await\<close> it calls the host with the first
  or the last page of the current window (\<open>addPage_call\<close>); when the host's promise
  settles it goes on with the value (\<open>addPage_resume\<close>), reading \<open>this.state\<close> as it
  is then.
\<close>

definition addPage_call :: "bool \<Rightarrow> VirtualList \<Rightarrow> VirtualList" where
  "addPage_call isUp c =
     (let arg = (if isUp then lodash_head (pages (state c)) else lodash_last (pages (state c)))
      in c\<lparr>fetches := fetches c @ [(isUp, arg)], pending := pending c @ [isUp]\<rparr>)"

definition addPage_resume :: "bool \<Rightarrow> IPageProps option \<Rightarrow> VirtualList \<Rightarrow> VirtualList" where
  "addPage_resume isUp reply c =
     (case reply of
        None \<Rightarrow> c
      | Some page \<Rightarrow>
          (let ps = mergePages isUp (maxPageBuffer (settings (state c))) page (pages (state c))
           in setState (\<lambda>s. s\<lparr>pages := ps, isScrollingUp := isUp\<rparr>) c))"

text \<open>
  \<open>handleIntersection\<close>: \<open>targetIsPrevious\<close> is \<open>entry.target === this.previousBuffer\<close>,
  \<open>ratio\<close> is \<open>entry.intersectionRatio\<close>.
\<close>

definition handleIntersection :: "bool \<Rightarrow> real \<Rightarrow> VirtualList \<Rightarrow> VirtualList" where
  "handleIntersection targetIsPrevious ratio c =
     (let isUp = targetIsPrevious;
          isIntersecting = (ratio > 0)
      in if \<not> isIntersecting \<or> \<not> isPagingEnabled (settings (state c)) then c
         else addPage_call isUp c)"

datatype setting_key = StartBottomUp | IsPagingEnabled | Debug

definition toggle :: "setting_key \<Rightarrow> VirtualList \<Rightarrow> VirtualList" where
  "toggle k c =
     (let st = settings (state c);
          st' = (case k of
                   StartBottomUp \<Rightarrow> st\<lparr>startBottomUp := \<not> startBottomUp st\<rparr>
                 | IsPagingEnabled \<Rightarrow> st\<lparr>isPagingEnabled := \<not> isPagingEnabled st\<rparr>
                 | Debug \<Rightarrow> st\<lparr>debug := \<not> debug st\<rparr>)
      in setState (\<lambda>s. s\<lparr>settings := st'\<rparr>) c)"

text \<open>
  What can happen to a mounted component, one event at a time on the single event loop:
  an intersection entry is delivered, a pending host promise settles with a page or with
  \<open>undefined\<close>, the debug panel toggles a setting. A \<open>Settled\<close> event for a direction
  with no pending call has no promise behind it and changes nothing.
\<close>

datatype event =
    Intersection bool real
  | Settled bool "IPageProps option"
  | Toggled setting_key

fun step :: "VirtualList \<Rightarrow> event \<Rightarrow> VirtualList" where
  "step c (Intersection targetIsPrevious ratio) = handleIntersection targetIsPrevious ratio c"
| "step c (Settled isUp reply) =
     (if isUp \<in> set (pending c)
      then addPage_resume isUp reply (c\<lparr>pending := remove1 isUp (pending c)\<rparr>)
      else c)"
| "step c (Toggled k) = toggle k c"

definition run :: "event list \<Rightarrow> VirtualList \<Rightarrow> VirtualList" where
  "run es c = foldl step c es"

text \<open>The number of host fetch calls made so far for one direction.\<close>

definition fetchCount :: "bool \<Rightarrow> (bool \<times> IPageProps option) list \<Rightarrow> nat" where
  "fetchCount isUp calls = length (filter (\<lambda>f. fst f = isUp) calls)"

section \<open>The legacy variant (the second source file)\<close>

subsection \<open>The wheel delta\<close>

text \<open>
  \<open>/chrome/i.test(navigator.userAgent)\<close>: the pattern is a plain word, so the test is
  whether the word occurs in the string, letters compared without regard to ASCII case.
\<close>

definition lowerCase :: "char \<Rightarrow> char" where
  "lowerCase ch =
     (if of_char ch \<ge> (65::nat) \<and> of_char ch \<le> (90::nat)
      then char_of (of_char ch + (32::nat)) else ch)"

fun startsWith_i :: "string \<Rightarrow> string \<Rightarrow> bool" where
  "startsWith_i [] s = True"
| "startsWith_i (p # ps) [] = False"
| "startsWith_i (p # ps) (ch # s) = (p = lowerCase ch \<and> startsWith_i ps s)"

fun test_i :: "string \<Rightarrow> string \<Rightarrow> bool" where
  "test_i word [] = startsWith_i word []"
| "test_i word (ch # s) = (startsWith_i word (ch # s) \<or> test_i word s)"

text \<open>\<open>getDelta\<close> reads \<open>navigator.userAgent\<close> and the event's \<open>deltaY\<close>.\<close>

definition getDelta :: "string \<Rightarrow> real \<Rightarrow> real" where
  "getDelta userAgent deltaY =
     (if test_i ''chrome'' userAgent then deltaY * (- 3)
      else if test_i ''firefox'' userAgent then deltaY * (- 3)
      else if test_i ''safari'' userAgent then deltaY * (- 300)
      else 0)"

subsection \<open>Settings and state\<close>

record IVirtualListSettings_legacy =
  startBottomUp_legacy :: bool
  maxPageBuffer_legacy :: int
  debug_legacy :: bool

record PartialSettings_legacy =
  startBottomUp_opt_legacy :: "bool option"
  maxPageBuffer_opt_legacy :: "int option"
  debug_opt_legacy :: "bool option"

definition defaultSettings_legacy :: IVirtualListSettings_legacy where
  "defaultSettings_legacy =
     \<lparr>startBottomUp_legacy = False, maxPageBuffer_legacy = 10, debug_legacy = False\<rparr>"

definition spreadSettings_legacy ::
    "IVirtualListSettings_legacy \<Rightarrow> PartialSettings_legacy option \<Rightarrow> IVirtualListSettings_legacy" where
  "spreadSettings_legacy d given =
     (case given of
        None \<Rightarrow> d
      | Some p \<Rightarrow>
          \<lparr>startBottomUp_legacy = override (startBottomUp_legacy d) (startBottomUp_opt_legacy p),
           maxPageBuffer_legacy = override (maxPageBuffer_legacy d) (maxPageBuffer_opt_legacy p),
           debug_legacy = override (debug_legacy d) (debug_opt_legacy p)\<rparr>)"

record IVirtualListState_legacy =
  pages_legacy :: "IPageProps list"
  settings_legacy :: IVirtualListSettings_legacy

record ScrollStatus =
  canScrollUp :: bool
  canScrollDown :: bool

text \<open>
  The legacy component: React state, the instance fields \<open>scrollStatus\<close> and \<open>runwayY\<close>,
  the rendered heights of the two buffer elements, and the same log of host calls and
  suspended \<open>addPage\<close> invocations as in the main variant.
\<close>

record VirtualList_legacy =
  state_legacy :: IVirtualListState_legacy
  scrollStatus :: ScrollStatus
  runwayY :: real
  previousBufferOffsetHeight_legacy :: real
  nextBufferOffsetHeight_legacy :: real
  fetches_legacy :: "(bool \<times> IPageProps option) list"
  pending_legacy :: "bool list"

definition constructor_legacy :: "PartialSettings_legacy option \<Rightarrow> VirtualList_legacy" where
  "constructor_legacy given =
     \<lparr>state_legacy =
        \<lparr>pages_legacy = [], settings_legacy = spreadSettings_legacy defaultSettings_legacy given\<rparr>,
      scrollStatus = \<lparr>canScrollUp = True, canScrollDown = True\<rparr>,
      runwayY = 0, previousBufferOffsetHeight_legacy = 0, nextBufferOffsetHeight_legacy = 0,
      fetches_legacy = [], pending_legacy = []\<rparr>"

text \<open>
  \<open>slideRunwayInPx\<close>: the runway's transform is written from \<open>runwayY\<close> on the next
  frame, so \<open>runwayY\<close> is the accumulated translation.
\<close>

definition slideRunwayInPx :: "real \<Rightarrow> VirtualList_legacy \<Rightarrow> VirtualList_legacy" where
  "slideRunwayInPx delta c = c\<lparr>runwayY := runwayY c + delta\<rparr>"

definition slideRunwayToBuffer :: "bool \<Rightarrow> real \<Rightarrow> VirtualList_legacy \<Rightarrow> VirtualList_legacy" where
  "slideRunwayToBuffer isGoingUp prunedElementHeight c =
     (if \<not> isGoingUp then c
      else slideRunwayInPx
             (- firstElementHeight (pages_legacy (state_legacy c)) (nextBufferOffsetHeight_legacy c)
              + prunedElementHeight) c)"

definition componentDidMount_legacy :: "VirtualList_legacy \<Rightarrow> VirtualList_legacy" where
  "componentDidMount_legacy c =
     (if \<not> startBottomUp_legacy (settings_legacy (state_legacy c))
      then slideRunwayInPx (- nextBufferOffsetHeight_legacy c) c
      else c)"

definition onWheel :: "string \<Rightarrow> real \<Rightarrow> VirtualList_legacy \<Rightarrow> VirtualList_legacy" where
  "onWheel userAgent deltaY c =
     (let delta = getDelta userAgent deltaY;
          goingUp = (delta \<ge> 0)
      in if (\<not> canScrollUp (scrollStatus c) \<and> goingUp)
            \<or> (\<not> canScrollDown (scrollStatus c) \<and> \<not> goingUp)
         then c
         else slideRunwayInPx delta c)"

definition addPage_call_legacy :: "bool \<Rightarrow> VirtualList_legacy \<Rightarrow> VirtualList_legacy" where
  "addPage_call_legacy isUp c =
     (let arg = (if isUp then lodash_head (pages_legacy (state_legacy c))
                 else lodash_last (pages_legacy (state_legacy c)))
      in c\<lparr>fetches_legacy := fetches_legacy c @ [(isUp, arg)],
           pending_legacy := pending_legacy c @ [isUp]\<rparr>)"

text \<open>
  After the \<open>await\<close>: the height of the page about to be pruned is read from the last
  rendered element when \<open>pages[maxPageBuffer]\<close> exists and the merge goes up; the new
  window is stored and, in the \<open>setState\<close> callback, the runway is slid.
\<close>

definition addPage_resume_legacy ::
    "bool \<Rightarrow> IPageProps option \<Rightarrow> VirtualList_legacy \<Rightarrow> VirtualList_legacy" where
  "addPage_resume_legacy isUp reply c =
     (case reply of
        None \<Rightarrow> c
      | Some page \<Rightarrow>
          (let st = state_legacy c;
               maxBuffer = maxPageBuffer_legacy (settings_legacy st);
               prunedElementHeight =
                 (if isUp then
                    (case index (pages_legacy st) maxBuffer of
                       None \<Rightarrow> 0
                     | Some prune \<Rightarrow>
                         lastElementHeight (pages_legacy st) (previousBufferOffsetHeight_legacy c))
                  else 0);
               ps = mergePages isUp maxBuffer page (pages_legacy st)
           in slideRunwayToBuffer isUp prunedElementHeight
                (c\<lparr>state_legacy := st\<lparr>pages_legacy := ps\<rparr>\<rparr>)))"

definition handleIntersection_legacy :: "bool \<Rightarrow> real \<Rightarrow> VirtualList_legacy \<Rightarrow> VirtualList_legacy" where
  "handleIntersection_legacy targetIsPrevious ratio c =
     (let isUp = targetIsPrevious;
          isIntersecting = (ratio > 5 / 100);
          shouldPauseScrolling = (ratio > 2 / 10);
          c' = c\<lparr>scrollStatus :=
                   \<lparr>canScrollUp =
                      (if isUp then \<not> shouldPauseScrolling else canScrollUp (scrollStatus c)),
                    canScrollDown =
                      (if \<not> isUp then \<not> shouldPauseScrolling else canScrollDown (scrollStatus c))\<rparr>\<rparr>
      in if \<not> isIntersecting \<or> debug_legacy (settings_legacy (state_legacy c)) then c'
         else addPage_call_legacy isUp c')"

text \<open>
  The legacy component's events: an intersection entry, a settled host promise, a wheel
  event with its \<open>deltaY\<close>. The user agent string is fixed for a run.
\<close>

datatype event_legacy =
    Intersection_legacy bool real
  | Settled_legacy bool "IPageProps option"
  | Wheel real

fun step_legacy :: "string \<Rightarrow> VirtualList_legacy \<Rightarrow> event_legacy \<Rightarrow> VirtualList_legacy" where
  "step_legacy ua c (Intersection_legacy targetIsPrevious ratio) =
     handleIntersection_legacy targetIsPrevious ratio c"
| "step_legacy ua c (Settled_legacy isUp reply) =
     (if isUp \<in> set (pending_legacy c)
      then addPage_resume_legacy isUp reply (c\<lparr>pending_legacy := remove1 isUp (pending_legacy c)\<rparr>)
      else c)"
| "step_legacy ua c (Wheel deltaY) = onWheel ua deltaY c"

definition run_legacy :: "string \<Rightarrow> event_legacy list \<Rightarrow> VirtualList_legacy \<Rightarrow> VirtualList_legacy" where
  "run_legacy ua es c = foldl (step_legacy ua) c es"

section \<open>Freshness of merged pages, and sample pages\<close>

text \<open>
  Neither file compares the identifier of an incoming page with the pages it holds.
  \<open>freshOps\<close> is the condition on the host under which that is harmless: at each merge of
  the sequence, the page's identifier is not among those of the window it is merged into.
\<close>

fun freshOps :: "int \<Rightarrow> (bool \<times> IPageProps) list \<Rightarrow> IPageProps list \<Rightarrow> bool" where
  "freshOps maxBuffer [] ps = True"
| "freshOps maxBuffer ((isUp, page) # ops) ps =
     (page_id page \<notin> set (map page_id ps)
      \<and> freshOps maxBuffer ops (mergePages isUp maxBuffer page ps))"

text \<open>Three pages for the worked scenarios.\<close>

abbreviation pageA :: IPageProps where
  "pageA \<equiv> \<lparr>page_id = 1, offsetHeight = 100\<rparr>"

abbreviation pageB :: IPageProps where
  "pageB \<equiv> \<lparr>page_id = 2, offsetHeight = 50\<rparr>"

abbreviation pageC :: IPageProps where
  "pageC \<equiv> \<lparr>page_id = 3, offsetHeight = 70\<rparr>"

text \<open>The defining equations needed to run either component on concrete events.\<close>

lemmas main_defs =
  run_def constructor_def spreadSettings_def defaultSettings_def override_def
  handleIntersection_def addPage_call_def addPage_resume_def setState_def
  componentDidUpdate_def adjustScrollTop_def getSnapshotBeforeUpdate_def mergePages_def
  lodash_take_def lodash_takeRight_def lodash_head_def lodash_last_def
  firstElementHeight_def fetchCount_def Let_def

lemmas legacy_defs =
  run_legacy_def constructor_legacy_def spreadSettings_legacy_def defaultSettings_legacy_def
  override_def handleIntersection_legacy_def addPage_call_legacy_def
  addPage_resume_legacy_def slideRunwayToBuffer_def slideRunwayInPx_def index_def
  mergePages_def lodash_take_def lodash_takeRight_def lodash_head_def lodash_last_def
  firstElementHeight_def lastElementHeight_def fetchCount_def Let_def

section \<open>The bounded window\<close>

text \<open>
  What the merge does to the length: the old window is cut to at most \<open>maxPageBuffer\<close>
  pages and the new page is added to that, so a window holds up to \<open>maxPageBuffer + 1\<close>
  pages and eviction starts one page later than the setting's name says.
\<close>

lemma mergePages_length:
  "length (mergePages isUp n page ps) = min (length ps) (nat n) + 1"
  by (auto simp: mergePages_def lodash_take_def lodash_takeRight_def Let_def)

lemma mergeAll_length_bound:
  "length ps \<le> nat n + 1 \<Longrightarrow> length (mergeAll n ops ps) \<le> nat n + 1"
proof (induction ops arbitrary: ps)
  case Nil
  then show ?case by simp
next
  case (Cons a ops)
  obtain isUp page where a: "a = (isUp, page)" by (cases a)
  have "length (mergePages isUp n page ps) \<le> nat n + 1"
    by (simp add: mergePages_length)
  with Cons.IH a show ?case by simp
qed

lemma mergePages_keeps_all:
  "length ps \<le> nat n \<Longrightarrow>
     mergePages True n page ps = page # ps \<and> mergePages False n page ps = ps @ [page]"
  by (auto simp: mergePages_def lodash_take_def lodash_takeRight_def Let_def)

lemma mergePages_append_evicts_first:
  "0 \<le> n \<Longrightarrow> length ps = nat n + 1 \<Longrightarrow> mergePages False n page ps = tl ps @ [page]"
  by (cases ps) (auto simp: mergePages_def lodash_takeRight_def Let_def)

lemma mergePages_prepend_evicts_last:
  "0 \<le> n \<Longrightarrow> length ps = nat n + 1 \<Longrightarrow> mergePages True n page ps = page # butlast ps"
  by (simp add: mergePages_def lodash_take_def Let_def butlast_conv_take)

text \<open>Both components store exactly the merged window when the host gives a page.\<close>

lemma addPage_resume_pages:
  "pages (state (addPage_resume isUp (Some page) c)) =
     mergePages isUp (maxPageBuffer (settings (state c))) page (pages (state c))"
  by (simp add: addPage_resume_def setState_def componentDidUpdate_def adjustScrollTop_def
      getSnapshotBeforeUpdate_def Let_def)

lemma addPage_resume_legacy_pages:
  "pages_legacy (state_legacy (addPage_resume_legacy isUp (Some page) l)) =
     mergePages isUp (maxPageBuffer_legacy (settings_legacy (state_legacy l))) page
       (pages_legacy (state_legacy l))"
  by (simp add: addPage_resume_legacy_def slideRunwayToBuffer_def slideRunwayInPx_def Let_def)

text \<open>
  C1. The claim: for every sequence of merges from the empty window and every
  \<open>maxPageBuffer > 0\<close>, the window never holds more than \<open>maxPageBuffer\<close> pages. The code
  at \<open>maxPageBuffer = 1\<close>: two pages appended one after the other are both kept, in the
  main component and in the legacy one, so the window holds two pages.
\<close>

theorem window_exceeds_maxPageBuffer:
  "maxPageBuffer (settings (state (constructor
       (Some \<lparr>startBottomUp_opt = None, maxPageBuffer_opt = Some 1,
              isPagingEnabled_opt = None, debug_opt = None\<rparr>)))) = 1
   \<and> length (pages (state (run
       [Intersection False 1, Settled False (Some pageA),
        Intersection False 1, Settled False (Some pageB)]
       (constructor
         (Some \<lparr>startBottomUp_opt = None, maxPageBuffer_opt = Some 1,
                isPagingEnabled_opt = None, debug_opt = None\<rparr>))))) = 2
   \<and> length (pages_legacy (state_legacy (run_legacy ''Mozilla''
       [Intersection_legacy False 1, Settled_legacy False (Some pageA),
        Intersection_legacy False 1, Settled_legacy False (Some pageB)]
       (constructor_legacy
         (Some \<lparr>startBottomUp_opt_legacy = None, maxPageBuffer_opt_legacy = Some 1,
                debug_opt_legacy = None\<rparr>))))) = 2"
  by (simp add: main_defs run_legacy_def constructor_legacy_def spreadSettings_legacy_def
      defaultSettings_legacy_def handleIntersection_legacy_def addPage_call_legacy_def
      addPage_resume_legacy_def slideRunwayToBuffer_def)

text \<open>
  C2. The claim: with \<open>maxPageBuffer = 2\<close> and window \<open>[A, B]\<close>, appending \<open>C\<close> gives
  \<open>[B, C]\<close>, \<open>A\<close> evicted. The code keeps all three pages: nothing is evicted from a
  window that holds \<open>maxPageBuffer\<close> pages, at either end.
\<close>

theorem append_at_maxPageBuffer_evicts_nothing:
  "mergePages False 2 pageC [pageA, pageB] = [pageA, pageB, pageC]
   \<and> mergePages True 2 pageC [pageA, pageB] = [pageC, pageA, pageB]"
  by (simp add: mergePages_def lodash_take_def lodash_takeRight_def)

section \<open>Host fetch calls\<close>

lemma handleIntersection_issues:
  "0 < r \<Longrightarrow> isPagingEnabled (settings (state c)) \<Longrightarrow>
     fetchCount d (fetches (handleIntersection d r c)) = fetchCount d (fetches c) + 1
     \<and> pending (handleIntersection d r c) = pending c @ [d]
     \<and> state (handleIntersection d r c) = state c"
  by (simp add: handleIntersection_def addPage_call_def fetchCount_def Let_def)

lemma handleIntersection_legacy_issues:
  "5 / 100 < r \<Longrightarrow> \<not> debug_legacy (settings_legacy (state_legacy l)) \<Longrightarrow>
     fetchCount d (fetches_legacy (handleIntersection_legacy d r l))
       = fetchCount d (fetches_legacy l) + 1
     \<and> pending_legacy (handleIntersection_legacy d r l) = pending_legacy l @ [d]
     \<and> state_legacy (handleIntersection_legacy d r l) = state_legacy l"
  by (simp add: handleIntersection_legacy_def addPage_call_legacy_def fetchCount_def Let_def)

text \<open>
  C3, as claimed: two sentinel triggers for one direction before the first fetch resolves
  make exactly one host fetch call. On the code, two triggers of the leading sentinel on a
  freshly constructed component make two calls of \<open>getPageBefore\<close>, both still pending.
\<close>

theorem two_triggers_one_fetch_counterexample:
  "fetchCount True (fetches (run [Intersection True 1, Intersection True 1] (constructor None))) = 2
   \<and> pending (run [Intersection True 1, Intersection True 1] (constructor None)) = [True, True]"
  by (simp add: main_defs)

text \<open>
  C3, amended: neither component keeps track of requests in flight. Every sentinel trigger
  that passes the variant's test (main: ratio above 0 and paging enabled; legacy: ratio
  above 0.05 and debug off) makes one host fetch call for its direction, whatever is
  pending; two such triggers with nothing settled in between make two calls, both in flight.
\<close>

theorem two_triggers_two_fetches:
  "(0 < r1 \<and> 0 < r2 \<and> isPagingEnabled (settings (state c)) \<longrightarrow>
      fetchCount d (fetches (run [Intersection d r1, Intersection d r2] c))
        = fetchCount d (fetches c) + 2
      \<and> pending (run [Intersection d r1, Intersection d r2] c) = pending c @ [d, d])
   \<and> (5 / 100 < r1 \<and> 5 / 100 < r2 \<and> \<not> debug_legacy (settings_legacy (state_legacy l)) \<longrightarrow>
      fetchCount d (fetches_legacy
          (run_legacy ua [Intersection_legacy d r1, Intersection_legacy d r2] l))
        = fetchCount d (fetches_legacy l) + 2
      \<and> pending_legacy (run_legacy ua [Intersection_legacy d r1, Intersection_legacy d r2] l)
        = pending_legacy l @ [d, d])"
proof (intro conjI impI)
  assume h: "0 < r1 \<and> 0 < r2 \<and> isPagingEnabled (settings (state c))"
  let ?c1 = "handleIntersection d r1 c"
  from h have one: "fetchCount d (fetches ?c1) = fetchCount d (fetches c) + 1"
      "pending ?c1 = pending c @ [d]" "state ?c1 = state c"
    using handleIntersection_issues [of r1 c d] by simp_all
  from h one(3) have two:
      "fetchCount d (fetches (handleIntersection d r2 ?c1)) = fetchCount d (fetches ?c1) + 1"
      "pending (handleIntersection d r2 ?c1) = pending ?c1 @ [d]"
    using handleIntersection_issues [of r2 ?c1 d] by simp_all
  show "fetchCount d (fetches (run [Intersection d r1, Intersection d r2] c))
        = fetchCount d (fetches c) + 2"
    by (simp add: run_def one two)
  show "pending (run [Intersection d r1, Intersection d r2] c) = pending c @ [d, d]"
    by (simp add: run_def one two)
next
  assume h: "5 / 100 < r1 \<and> 5 / 100 < r2 \<and> \<not> debug_legacy (settings_legacy (state_legacy l))"
  let ?c1 = "handleIntersection_legacy d r1 l"
  from h have one: "fetchCount d (fetches_legacy ?c1) = fetchCount d (fetches_legacy l) + 1"
      "pending_legacy ?c1 = pending_legacy l @ [d]" "state_legacy ?c1 = state_legacy l"
    using handleIntersection_legacy_issues [of r1 l d] by simp_all
  from h one(3) have two:
      "fetchCount d (fetches_legacy (handleIntersection_legacy d r2 ?c1))
         = fetchCount d (fetches_legacy ?c1) + 1"
      "pending_legacy (handleIntersection_legacy d r2 ?c1) = pending_legacy ?c1 @ [d]"
    using handleIntersection_legacy_issues [of r2 ?c1 d] by simp_all
  show "fetchCount d (fetches_legacy
          (run_legacy ua [Intersection_legacy d r1, Intersection_legacy d r2] l))
        = fetchCount d (fetches_legacy l) + 2"
    by (simp add: run_legacy_def one two)
  show "pending_legacy (run_legacy ua [Intersection_legacy d r1, Intersection_legacy d r2] l)
        = pending_legacy l @ [d, d]"
    by (simp add: run_legacy_def one two)
qed

theorem two_triggers_two_fetches_witness:
  "fetchCount False (fetches
      (run [Intersection False (1 / 2), Intersection False 1] (constructor None))) = 2
   \<and> fetchCount False (fetches_legacy (run_legacy ''Mozilla''
        [Intersection_legacy False (1 / 2), Intersection_legacy False 1]
        (constructor_legacy None))) = 2"
  using two_triggers_two_fetches
    [of "1 / 2" 1 "constructor None" False "constructor_legacy None" "''Mozilla''"]
  by (simp add: constructor_def constructor_legacy_def spreadSettings_def
      spreadSettings_legacy_def defaultSettings_def defaultSettings_legacy_def fetchCount_def)

text \<open>
  C4, as claimed: once the host has resolved with \<open>undefined\<close> for a direction, later
  sentinel triggers for that direction make no further fetch call. On the code, the
  second trigger of the leading sentinel, after \<open>getPageBefore\<close> resolved with
  \<open>undefined\<close>, calls \<open>getPageBefore\<close> again.
\<close>

theorem exhaustion_sticky_counterexample:
  "fetchCount True (fetches
      (run [Intersection True 1, Settled True None] (constructor None))) = 1
   \<and> fetchCount True (fetches
      (run [Intersection True 1, Settled True None, Intersection True 1] (constructor None))) = 2"
  by (simp add: main_defs)

text \<open>
  C4, amended: when the host resolves with \<open>undefined\<close> the component records nothing:
  its state is as before and no fetch call is made by the settling itself; the next
  sentinel trigger for that direction that passes the variant's test makes a further host
  fetch call. No direction is ever marked exhausted, in either variant.
\<close>

theorem trigger_after_undefined_fetches_again:
  "(d \<in> set (pending c) \<and> 0 < r \<and> isPagingEnabled (settings (state c)) \<longrightarrow>
      state (run [Settled d None] c) = state c
      \<and> fetchCount d (fetches (run [Settled d None] c)) = fetchCount d (fetches c)
      \<and> fetchCount d (fetches (run [Settled d None, Intersection d r] c))
          = fetchCount d (fetches c) + 1)
   \<and> (d \<in> set (pending_legacy l) \<and> 5 / 100 < r
        \<and> \<not> debug_legacy (settings_legacy (state_legacy l)) \<longrightarrow>
      state_legacy (run_legacy ua [Settled_legacy d None] l) = state_legacy l
      \<and> fetchCount d (fetches_legacy (run_legacy ua [Settled_legacy d None] l))
          = fetchCount d (fetches_legacy l)
      \<and> fetchCount d (fetches_legacy
            (run_legacy ua [Settled_legacy d None, Intersection_legacy d r] l))
          = fetchCount d (fetches_legacy l) + 1)"
proof (intro conjI impI)
  assume h: "d \<in> set (pending c) \<and> 0 < r \<and> isPagingEnabled (settings (state c))"
  let ?c1 = "c\<lparr>pending := remove1 d (pending c)\<rparr>"
  from h have m: "d \<in> set (pending c)"
    by simp
  have s: "addPage_resume d None ?c1 = ?c1"
    by (simp add: addPage_resume_def)
  show "state (run [Settled d None] c) = state c"
    by (simp add: run_def m s)
  show "fetchCount d (fetches (run [Settled d None] c)) = fetchCount d (fetches c)"
    by (simp add: run_def m s)
  from h have "fetchCount d (fetches (handleIntersection d r ?c1)) = fetchCount d (fetches ?c1) + 1"
    using handleIntersection_issues [of r ?c1 d] by simp
  then show "fetchCount d (fetches (run [Settled d None, Intersection d r] c))
          = fetchCount d (fetches c) + 1"
    by (simp add: run_def m s)
next
  assume h: "d \<in> set (pending_legacy l) \<and> 5 / 100 < r
        \<and> \<not> debug_legacy (settings_legacy (state_legacy l))"
  let ?c1 = "l\<lparr>pending_legacy := remove1 d (pending_legacy l)\<rparr>"
  from h have m: "d \<in> set (pending_legacy l)"
    by simp
  have s: "addPage_resume_legacy d None ?c1 = ?c1"
    by (simp add: addPage_resume_legacy_def)
  show "state_legacy (run_legacy ua [Settled_legacy d None] l) = state_legacy l"
    by (simp add: run_legacy_def m s)
  show "fetchCount d (fetches_legacy (run_legacy ua [Settled_legacy d None] l))
          = fetchCount d (fetches_legacy l)"
    by (simp add: run_legacy_def m s)
  from h have "fetchCount d (fetches_legacy (handleIntersection_legacy d r ?c1))
      = fetchCount d (fetches_legacy ?c1) + 1"
    using handleIntersection_legacy_issues [of r ?c1 d] by simp
  then show "fetchCount d (fetches_legacy
            (run_legacy ua [Settled_legacy d None, Intersection_legacy d r] l))
          = fetchCount d (fetches_legacy l) + 1"
    by (simp add: run_legacy_def m s)
qed

theorem trigger_after_undefined_fetches_again_witness:
  "fetchCount False (fetches (run [Settled False None, Intersection False 1]
       (run [Intersection False 1] (constructor None)))) = 2
   \<and> fetchCount False (fetches_legacy (run_legacy ''Mozilla''
       [Settled_legacy False None, Intersection_legacy False 1]
       (run_legacy ''Mozilla'' [Intersection_legacy False 1] (constructor_legacy None)))) = 2"
  using trigger_after_undefined_fetches_again
    [of False "run [Intersection False 1] (constructor None)" 1
      "run_legacy ''Mozilla'' [Intersection_legacy False 1] (constructor_legacy None)"
      "''Mozilla''"]
  by (simp add: main_defs run_legacy_def constructor_legacy_def spreadSettings_legacy_def
      defaultSettings_legacy_def handleIntersection_legacy_def addPage_call_legacy_def
      addPage_resume_legacy_def)

text \<open>
  C5. When the host resolves with \<open>undefined\<close>, the rest of \<open>addPage\<close> returns at once:
  the whole component is as it was, in both variants, for every direction and every
  window. Seen as an event, the settling leaves the React state and the scroll offset
  (main), and the React state, the runway offset and the scroll flags (legacy) unchanged.
\<close>

theorem addPage_undefined_no_mutation:
  "addPage_resume isUp None c = c
   \<and> addPage_resume_legacy isUp None l = l
   \<and> state (step c (Settled isUp None)) = state c
   \<and> scrollTop (step c (Settled isUp None)) = scrollTop c
   \<and> state_legacy (step_legacy ua l (Settled_legacy isUp None)) = state_legacy l
   \<and> runwayY (step_legacy ua l (Settled_legacy isUp None)) = runwayY l
   \<and> scrollStatus (step_legacy ua l (Settled_legacy isUp None)) = scrollStatus l"
  by (simp add: addPage_resume_def addPage_resume_legacy_def)

section \<open>Scroll compensation\<close>

text \<open>
  \<open>componentDidUpdate\<close> hands \<open>adjustScrollTop\<close> the direction stored before the update,
  that is the direction of the merge before this one (or \<open>startBottomUp\<close> at first). The
  offset is therefore moved after a merge exactly when the previous merge went up.
\<close>

lemma prepend_after_up_compensated:
  "isScrollingUp (state c) \<Longrightarrow>
     scrollTop (addPage_resume True (Some page) c) = scrollTop c + offsetHeight page"
  by (simp add: addPage_resume_def setState_def componentDidUpdate_def adjustScrollTop_def
      getSnapshotBeforeUpdate_def mergePages_def firstElementHeight_def Let_def)

lemma merge_after_down_not_compensated:
  "\<not> isScrollingUp (state c) \<Longrightarrow> scrollTop (addPage_resume isUp reply c) = scrollTop c"
  by (cases reply)
     (simp_all add: addPage_resume_def setState_def componentDidUpdate_def adjustScrollTop_def
        getSnapshotBeforeUpdate_def Let_def)

text \<open>The legacy component passes the direction of the merge itself.\<close>

lemma append_legacy_keeps_runwayY:
  "runwayY (addPage_resume_legacy False reply l) = runwayY l"
  by (cases reply) (simp_all add: addPage_resume_legacy_def slideRunwayToBuffer_def Let_def)

lemma prepend_legacy_slides:
  "index (pages_legacy (state_legacy l)) (maxPageBuffer_legacy (settings_legacy (state_legacy l)))
     = None \<Longrightarrow>
   runwayY (addPage_resume_legacy True (Some page) l) = runwayY l - offsetHeight page"
  by (simp add: addPage_resume_legacy_def slideRunwayToBuffer_def slideRunwayInPx_def
      mergePages_def firstElementHeight_def Let_def)

text \<open>
  C6. The claim: after a prepend of a page of height \<open>h\<close> with no eviction the scroll
  offset has moved by exactly \<open>+h\<close>. The code on a component with the default settings:
  the first merge is a prepend of a page of height 100, nothing is evicted, and the
  scroll offset stays where it was.
\<close>

theorem first_prepend_not_compensated:
  "pages (state (run [Intersection True 1, Settled True (Some pageA)] (constructor None)))
     = [pageA]
   \<and> scrollTop (run [Intersection True 1, Settled True (Some pageA)] (constructor None))
     = scrollTop (constructor None)"
  by (simp add: main_defs)

text \<open>
  C7. The claim: an append merge leaves the scroll offset (main) and the runway offset
  (legacy) unchanged. The code of the main component: after a prepend, the append of a
  second page moves the scroll offset from 0 to 100, the height of the first page in
  the window.
\<close>

theorem append_after_prepend_moves_scrollTop:
  "scrollTop (run [Intersection True 1, Settled True (Some pageA)] (constructor None)) = 0
   \<and> scrollTop (run [Intersection True 1, Settled True (Some pageA),
                     Intersection False 1, Settled False (Some pageB)] (constructor None)) = 100"
  by (simp add: main_defs)

section \<open>Page identifiers\<close>

lemma mergePages_distinct:
  assumes "distinct (map page_id ps)" and "page_id page \<notin> set (map page_id ps)"
  shows "distinct (map page_id (mergePages isUp n page ps))"
proof (cases isUp)
  case True
  have "distinct (map page_id (lodash_take ps n))"
    using assms(1) by (simp add: lodash_take_def distinct_take take_map [symmetric])
  moreover have "page_id page \<notin> set (map page_id (lodash_take ps n))"
    using assms(2) by (auto simp: lodash_take_def dest: in_set_takeD)
  ultimately show ?thesis
    using True by (simp add: mergePages_def Let_def)
next
  case False
  have "distinct (map page_id (lodash_takeRight ps n))"
    using assms(1) by (simp add: lodash_takeRight_def Let_def distinct_drop drop_map [symmetric])
  moreover have "page_id page \<notin> set (map page_id (lodash_takeRight ps n))"
    using assms(2) by (auto simp: lodash_takeRight_def Let_def dest: in_set_dropD)
  ultimately show ?thesis
    using False by (simp add: mergePages_def Let_def)
qed

lemma mergeAll_distinct:
  "distinct (map page_id ps) \<Longrightarrow> freshOps n ops ps \<Longrightarrow>
     distinct (map page_id (mergeAll n ops ps))"
proof (induction ops arbitrary: ps)
  case Nil
  then show ?case by simp
next
  case (Cons a ops)
  obtain isUp page where a: "a = (isUp, page)" by (cases a)
  from Cons.prems a have fresh: "page_id page \<notin> set (map page_id ps)"
    and rest: "freshOps n ops (mergePages isUp n page ps)"
    by simp_all
  have "distinct (map page_id (mergePages isUp n page ps))"
    using Cons.prems(1) fresh by (rule mergePages_distinct)
  then have "distinct (map page_id (mergeAll n ops (mergePages isUp n page ps)))"
    using rest by (rule Cons.IH)
  then show ?case by (simp add: a)
qed

text \<open>
  C8, as claimed: the identifiers in every window reachable by merges are pairwise
  distinct. On the code, a host that answers two fetches with the same page gets a window
  holding that page twice.
\<close>

theorem duplicate_ids_counterexample:
  "\<not> distinct (map page_id (pages (state (run
       [Intersection False 1, Settled False (Some pageA),
        Intersection False 1, Settled False (Some pageA)] (constructor None)))))"
  by (simp add: main_defs)

text \<open>
  C8, amended: the components do not check identifiers; the identifiers in a window
  reached from the empty window are pairwise distinct provided that each merged page's
  identifier is not among those of the window it is merged into.
\<close>

theorem fresh_merges_distinct:
  "freshOps n ops [] \<Longrightarrow> distinct (map page_id (mergeAll n ops []))"
  by (rule mergeAll_distinct) simp_all

theorem fresh_merges_distinct_witness:
  "freshOps 1 [(False, pageA), (False, pageB), (False, pageC), (True, pageA)] []
   \<and> distinct (map page_id
       (mergeAll 1 [(False, pageA), (False, pageB), (False, pageC), (True, pageA)] []))"
proof -
  have h: "freshOps 1 [(False, pageA), (False, pageB), (False, pageC), (True, pageA)] []"
    by (simp add: mergePages_def lodash_take_def lodash_takeRight_def)
  from fresh_merges_distinct [OF h] h show ?thesis by simp
qed

section \<open>Effective settings\<close>

text \<open>
  C9, as claimed: the effective settings are the defaults with \<open>maxPageBuffer = 15\<close> and
  \<open>isPagingEnabled = true\<close>, overridden by what the host supplies. The legacy component,
  given no settings, has a \<open>maxPageBuffer\<close> other than 15.
\<close>

theorem legacy_default_maxPageBuffer_counterexample:
  "maxPageBuffer_legacy (settings_legacy (state_legacy (constructor_legacy None))) \<noteq> 15"
  by (simp add: constructor_legacy_def spreadSettings_legacy_def defaultSettings_legacy_def)

text \<open>
  C9, amended: in the main component the effective settings are the defaults
  \<open>startBottomUp = false\<close>, \<open>maxPageBuffer = 15\<close>, \<open>isPagingEnabled = true\<close>,
  \<open>debug = false\<close>, each replaced by the supplied value where the host supplies one, every
  field and the settings object itself being optional. In the legacy component the
  settings have no \<open>isPagingEnabled\<close> and the defaults are \<open>startBottomUp = false\<close>,
  \<open>maxPageBuffer = 10\<close>, \<open>debug = false\<close>, overridden in the same way.
\<close>

theorem effective_settings:
  "settings (state (constructor given)) =
     (case given of
        None \<Rightarrow>
          \<lparr>startBottomUp = False, maxPageBuffer = 15, isPagingEnabled = True, debug = False\<rparr>
      | Some p \<Rightarrow>
          \<lparr>startBottomUp = (case startBottomUp_opt p of None \<Rightarrow> False | Some v \<Rightarrow> v),
           maxPageBuffer = (case maxPageBuffer_opt p of None \<Rightarrow> 15 | Some v \<Rightarrow> v),
           isPagingEnabled = (case isPagingEnabled_opt p of None \<Rightarrow> True | Some v \<Rightarrow> v),
           debug = (case debug_opt p of None \<Rightarrow> False | Some v \<Rightarrow> v)\<rparr>)
   \<and> settings_legacy (state_legacy (constructor_legacy given_legacy)) =
     (case given_legacy of
        None \<Rightarrow>
          \<lparr>startBottomUp_legacy = False, maxPageBuffer_legacy = 10, debug_legacy = False\<rparr>
      | Some p \<Rightarrow>
          \<lparr>startBottomUp_legacy =
             (case startBottomUp_opt_legacy p of None \<Rightarrow> False | Some v \<Rightarrow> v),
           maxPageBuffer_legacy =
             (case maxPageBuffer_opt_legacy p of None \<Rightarrow> 10 | Some v \<Rightarrow> v),
           debug_legacy = (case debug_opt_legacy p of None \<Rightarrow> False | Some v \<Rightarrow> v)\<rparr>)"
  by (simp add: constructor_def constructor_legacy_def spreadSettings_def
      spreadSettings_legacy_def defaultSettings_def defaultSettings_legacy_def override_def
      Let_def split: option.splits)

section \<open>The wheel on an unrecognised user agent\<close>

text \<open>
  C10. In the legacy component, when the user agent string contains none of
  \<open>chrome\<close>, \<open>firefox\<close>, \<open>safari\<close> (in any letter case), \<open>getDelta\<close> is 0 for every wheel
  event and \<open>onWheel\<close> leaves \<open>runwayY\<close> as it was.
\<close>

theorem getDelta_unknown_agent:
  assumes "\<not> test_i ''chrome'' ua" and "\<not> test_i ''firefox'' ua" and "\<not> test_i ''safari'' ua"
  shows "getDelta ua deltaY = 0 \<and> runwayY (onWheel ua deltaY l) = runwayY l"
proof -
  have d: "getDelta ua deltaY = 0"
    using assms by (simp add: getDelta_def)
  have "runwayY (onWheel ua deltaY l) = runwayY l"
    by (simp add: onWheel_def d slideRunwayInPx_def Let_def)
  with d show ?thesis by simp
qed

theorem getDelta_unknown_agent_witness:
  "\<not> test_i ''chrome'' ''Mozilla/5.0 (MSIE 10.0)''
   \<and> getDelta ''Mozilla/5.0 (MSIE 10.0)'' 120 = 0
   \<and> runwayY (onWheel ''Mozilla/5.0 (MSIE 10.0)'' 120 (constructor_legacy None))
       = runwayY (constructor_legacy None)"
proof -
  have a: "\<not> test_i ''chrome'' ''Mozilla/5.0 (MSIE 10.0)''" by (simp add: lowerCase_def)
  have b: "\<not> test_i ''firefox'' ''Mozilla/5.0 (MSIE 10.0)''" by (simp add: lowerCase_def)
  have c: "\<not> test_i ''safari'' ''Mozilla/5.0 (MSIE 10.0)''" by (simp add: lowerCase_def)
  from getDelta_unknown_agent [OF a b c, of 120 "constructor_legacy None"] a
  show ?thesis by simp
qed

text \<open>On a user agent that is recognised the wheel does move the runway.\<close>

lemma getDelta_safari: "getDelta ''Mozilla/5.0 Safari/605'' 2 = - 600"
  by code_simp

end
